theory Spec2Isabelle
  imports Complex_Main "HOL-Library.Sublist" "HOL-Library.AList"
begin

section \<open>JavaScript values used by the bin service\<close>

text \<open>
  The service is JavaScript. Strings are modelled as ASCII \<open>string\<close>s, integers as
  unbounded \<open>int\<close> (the CDS type of \<open>capacity\<close> and \<open>currentStock\<close> is \<open>Integer\<close>,
  far inside the range where a JavaScript number prints as plain decimal digits), and the
  one non-integer number the mapper can produce, \<open>NaN\<close>, is a constructor of its own.
  A property that may be missing (\<open>undefined\<close>) is an \<open>option\<close>.
\<close>

datatype jsnum = NaN | Num int

text \<open>\<open>a > b\<close> on numbers: every comparison with \<open>NaN\<close> or \<open>undefined\<close> is false.\<close>

fun js_gt :: "jsnum option \<Rightarrow> jsnum option \<Rightarrow> bool" where
  "js_gt (Some (Num a)) (Some (Num b)) = (a > b)"
| "js_gt _ _ = False"

text \<open>\<open>a <= b\<close> and \<open>a < b\<close> on numbers, false on \<open>NaN\<close>.\<close>

fun js_le :: "jsnum \<Rightarrow> jsnum \<Rightarrow> bool" where
  "js_le (Num a) (Num b) = (a \<le> b)"
| "js_le _ _ = False"

fun js_lt :: "jsnum \<Rightarrow> jsnum \<Rightarrow> bool" where
  "js_lt (Num a) (Num b) = (a < b)"
| "js_lt _ _ = False"

text \<open>\<open>s || d\<close> for a possibly missing string: the empty string is falsy.\<close>

fun str_or :: "string option \<Rightarrow> string \<Rightarrow> string" where
  "str_or None d = d"
| "str_or (Some s) d = (if s = [] then d else s)"

text \<open>\<open>n || 0\<close> for a possibly missing number: \<open>NaN\<close> and \<open>0\<close> are falsy.\<close>

fun num_or0 :: "jsnum option \<Rightarrow> int" where
  "num_or0 (Some (Num n)) = n"
| "num_or0 _ = 0"

subsection \<open>\<open>String.prototype.trim\<close> and \<open>split\<close>\<close>

definition is_ws :: "char \<Rightarrow> bool" where
  "is_ws c = (c \<in> set [CHR 0x09, CHR 0x0A, CHR 0x0B, CHR 0x0C, CHR 0x0D, CHR 0x20])"

definition trim :: "string \<Rightarrow> string" where
  "trim s = rev (dropWhile is_ws (rev (dropWhile is_ws s)))"

text \<open>\<open>s.split(c)\<close> for a one-character separator: never empty, \<open>''''.split(c) = ['''']\<close>.\<close>

fun split_on :: "char \<Rightarrow> string \<Rightarrow> string list" where
  "split_on c [] = [] # []"
| "split_on c (x # xs) =
     (if x = c then [] # split_on c xs
      else (case split_on c xs of [] \<Rightarrow> [x] # [] | y # ys \<Rightarrow> (x # y) # ys))"

subsection \<open>\<open>Number.prototype.toString\<close> and \<open>parseInt\<close>\<close>

fun digits :: "nat \<Rightarrow> string" where
  "digits n = (if n < 10 then [char_of (48 + n)]
               else digits (n div 10) @ [char_of (48 + n mod 10)])"

declare digits.simps [simp del]

definition int_toString :: "int \<Rightarrow> string" where
  "int_toString n = (if n < 0 then CHR ''-'' # digits (nat (- n)) else digits (nat n))"

fun num_toString :: "jsnum \<Rightarrow> string" where
  "num_toString NaN = ''NaN''"
| "num_toString (Num n) = int_toString n"

text \<open>The value of a character as a digit, for radix 10 and radix 16.\<close>

definition digit_val :: "char \<Rightarrow> nat option" where
  "digit_val c =
     (let n = (of_char c :: nat) in
      if 48 \<le> n \<and> n \<le> 57 then Some (n - 48)
      else if 97 \<le> n \<and> n \<le> 102 then Some (n - 87)
      else if 65 \<le> n \<and> n \<le> 70 then Some (n - 55)
      else None)"

definition is_radix_digit :: "nat \<Rightarrow> char \<Rightarrow> bool" where
  "is_radix_digit R c = (case digit_val c of Some d \<Rightarrow> d < R | None \<Rightarrow> False)"

definition digit_num :: "char \<Rightarrow> nat" where
  "digit_num c = (case digit_val c of Some d \<Rightarrow> d | None \<Rightarrow> 0)"

text \<open>
  \<open>parseInt(string)\<close> with no radix argument: leading white space is skipped, a sign is
  read, a \<open>0x\<close>/\<open>0X\<close> prefix selects radix 16, the longest prefix of digits is the value
  and an empty prefix gives \<open>NaN\<close>. (\<open>-0\<close> is identified with \<open>0\<close>.)
\<close>

definition parseInt :: "string \<Rightarrow> jsnum" where
  "parseInt inputString =
     (let S = dropWhile is_ws inputString;
          sign = (if S \<noteq> [] \<and> hd S = CHR ''-'' then - 1 else 1 :: int);
          S1 = (if S \<noteq> [] \<and> (hd S = CHR ''+'' \<or> hd S = CHR ''-'') then tl S else S);
          hex = (take 2 S1 = ''0x'' \<or> take 2 S1 = ''0X'');
          R = (if hex then 16 else 10 :: nat);
          S2 = (if hex then drop 2 S1 else S1);
          Z = takeWhile (is_radix_digit R) S2
      in if Z = [] then NaN
         else Num (sign * int (foldl (\<lambda>a c. a * R + digit_num c) 0 Z)))"

text \<open>
  A numeric field of a source record arrives as a string or as a number.
  \<open>parseInt(v || 0)\<close>: a missing, empty, zero or \<open>NaN\<close> value is replaced by \<open>0\<close>;
  a number is converted to its string first, as \<open>parseInt\<close> does with every argument.
\<close>

datatype jsval = Str string | Number jsnum

fun parseInt_or0 :: "jsval option \<Rightarrow> jsnum" where
  "parseInt_or0 None = Num 0"
| "parseInt_or0 (Some (Str s)) = (if s = [] then Num 0 else parseInt s)"
| "parseInt_or0 (Some (Number NaN)) = Num 0"
| "parseInt_or0 (Some (Number (Num n))) = (if n = 0 then Num 0 else parseInt (int_toString n))"

section \<open>The canonical bin and the S/4HANA storage-bin record\<close>

record bin =
  ID :: "string option"
  binNumber :: "string option"
  location :: "string option"
  capacity :: "jsnum option"
  currentStock :: "jsnum option"
  status :: "string option"
  barcode :: "string option"
  lastUpdated :: "string option"
  createdAt :: "string option"

record s4bin =
  StorageBin :: "string option"
  Warehouse :: "string option"
  StorageType :: "string option"
  MaximumStorageCapacity :: "jsval option"
  CurrentStock :: "jsval option"
  BlockingIndicator :: "string option"
  CreationDate :: "string option"

text \<open>What the service's \<open>try\<close> blocks can catch.\<close>

datatype exn = TypeError | ApiError string

subsection \<open>\<open>mapS4ToBin\<close>\<close>

text \<open>\<open>now\<close> is the value of \<open>new Date().toISOString()\<close> at the time of the call.\<close>

definition mapS4ToBin :: "string \<Rightarrow> s4bin \<Rightarrow> bin" where
  "mapS4ToBin now s4Bin =
     \<lparr> ID = StorageBin s4Bin,
       binNumber = StorageBin s4Bin,
       location = Some (trim (str_or (Warehouse s4Bin) [] @ '' - '' @ str_or (StorageType s4Bin) [])),
       capacity = Some (parseInt_or0 (MaximumStorageCapacity s4Bin)),
       currentStock = Some (parseInt_or0 (CurrentStock s4Bin)),
       status = Some (if str_or (BlockingIndicator s4Bin) [] \<noteq> [] then ''inactive'' else ''active''),
       barcode = Some (str_or (StorageBin s4Bin) []),
       lastUpdated = Some now,
       createdAt = Some (str_or (CreationDate s4Bin) now) \<rparr>"

subsection \<open>\<open>mapBinToS4\<close>\<close>

text \<open>
  \<open>bin.location.split\<close>, \<open>bin.capacity.toString\<close> and \<open>bin.currentStock.toString\<close> throw a
  \<open>TypeError\<close> when the property is missing. \<open>split('-')[1]?.trim() || 'BULK'\<close> takes the
  second piece, if there is one, and replaces a missing or blank one by \<open>BULK\<close>.
\<close>

definition mapBinToS4 :: "bin \<Rightarrow> exn + s4bin" where
  "mapBinToS4 b =
     (case (location b, capacity b, currentStock b) of
        (Some loc, Some cap, Some stock) \<Rightarrow>
          Inr \<lparr> StorageBin = binNumber b,
                Warehouse = Some (trim (hd (split_on CHR ''-'' loc))),
                StorageType =
                  Some (str_or (if 1 < length (split_on CHR ''-'' loc)
                                then Some (trim (split_on CHR ''-'' loc ! 1)) else None)
                               ''BULK''),
                MaximumStorageCapacity = Some (Str (num_toString cap)),
                CurrentStock = Some (Str (num_toString stock)),
                BlockingIndicator = Some (if status b = Some ''active'' then [] else ''X''),
                CreationDate = None \<rparr>
      | _ \<Rightarrow> Inl TypeError)"

section \<open>Statistics\<close>

record statistics =
  totalBins :: int
  activeBins :: int
  inactiveBins :: int
  totalCapacity :: int
  totalStock :: int
  utilizationPercentage :: rat

text \<open>
  \<open>parseFloat(x.toFixed(2))\<close>: the multiple of \<open>1/100\<close> nearest to \<open>x\<close>, the one of larger
  magnitude when two are equally near. The quotient is taken as an exact rational: the
  rounding error of double arithmetic is not part of the model.
\<close>

definition toFixed2 :: "rat \<Rightarrow> rat" where
  "toFixed2 x = (if x < 0 then - (of_int \<lfloor>- x * 100 + 1 / 2\<rfloor> / 100)
                 else of_int \<lfloor>x * 100 + 1 / 2\<rfloor> / 100)"

text \<open>The computation shared by both \<open>getBinStatistics\<close> handlers, from \<open>allBins\<close> on.\<close>

definition binStatistics :: "bin list \<Rightarrow> statistics" where
  "binStatistics allBins =
     (let total = int (length allBins);
          active = int (length (filter (\<lambda>b. status b = Some ''active'') allBins));
          inactive = total - active;
          cap = foldl (\<lambda>sum b. sum + num_or0 (capacity b)) 0 allBins;
          stock = foldl (\<lambda>sum b. sum + num_or0 (currentStock b)) 0 allBins;
          utilization = (if cap > 0 then toFixed2 (of_int stock / of_int cap * 100) else 0)
      in \<lparr> totalBins = total, activeBins = active, inactiveBins = inactive,
           totalCapacity = cap, totalStock = stock, utilizationPercentage = utilization \<rparr>)"

section \<open>The S/4HANA service as a collaborator\<close>

text \<open>
  Every call of \<open>callS4API(path, method, data)\<close> is a request to the OData service. The
  requests the handlers build are kept structured; \<open>path_of\<close> gives the URL the source
  builds for each.
\<close>

datatype request =
    ReadCollection string
  | ReadEntity string
  | CreateEntity s4bin
  | PatchEntity string s4bin
  | DeleteEntity string

definition entity_path :: "string \<Rightarrow> string" where
  "entity_path binId = ''/A_WarehouseStorageBin('' @ [CHR 0x27] @ binId @ [CHR 0x27] @ '')''"

fun path_of :: "request \<Rightarrow> string" where
  "path_of (ReadCollection query) = query"
| "path_of (ReadEntity binId) = entity_path binId @ ''?$format=json''"
| "path_of (CreateEntity s4Data) = ''/A_WarehouseStorageBin''"
| "path_of (PatchEntity binId s4Data) = entity_path binId"
| "path_of (DeleteEntity binId) = entity_path binId"

text \<open>\<open>response.d\<close>: one entity, or an object with a \<open>results\<close> array.\<close>

datatype payload = Entity s4bin | Results "s4bin list"

definition no_fields :: s4bin where
  "no_fields = \<lparr> StorageBin = None, Warehouse = None, StorageType = None,
                 MaximumStorageCapacity = None, CurrentStock = None,
                 BlockingIndicator = None, CreationDate = None \<rparr>"

fun payload_rec :: "payload \<Rightarrow> s4bin" where
  "payload_rec (Entity r) = r"
| "payload_rec (Results rs) = no_fields"

fun payload_results :: "payload option \<Rightarrow> s4bin list option" where
  "payload_results (Some (Results rs)) = Some rs"
| "payload_results _ = None"

text \<open>
  The service is a parameter: a function from its state and a request to either a failure
  (\<open>executeHttpRequest\<close> throws) or \<open>response.d\<close>, and the next state. The handlers run in
  a world that also logs each request issued.
\<close>

type_synonym 'st api = "'st \<Rightarrow> request \<Rightarrow> (exn + payload option) \<times> 'st"

type_synonym 'st world = "'st \<times> request list"

definition callS4API :: "'st api \<Rightarrow> request \<Rightarrow> 'st world \<Rightarrow> (exn + payload option) \<times> 'st world" where
  "callS4API api rq w = (case api (fst w) rq of (r, st') \<Rightarrow> (r, (st', snd w @ [rq])))"

text \<open>\<open>req.error(code, message)\<close>, and \<open>req.error(code, prefix + error.message)\<close> in a \<open>catch\<close>.\<close>

datatype req_error = Rejected nat string | Failed nat string exn

section \<open>Query translation: the READ handler\<close>

text \<open>
  \<open>req.query.SELECT\<close>: \<open>limit\<close>, the \<open>$skip\<close> found under \<open>from.ref[0].where\<close>, and \<open>where\<close>.
  A \<open>where\<close> value is looked at twice: as an array (its elements are operator strings and
  operand objects, which may have a \<open>val\<close>) and for its \<open>status\<close> property.
\<close>

datatype where_item = Token string | Operand "string option"

record where_clause =
  elements :: "where_item list option"
  status_prop :: "string option"

record select =
  limit :: "int option"
  skip :: "int option"
  whereC :: "where_clause option"

datatype odata_filter =
    SubstringOf string string
  | FieldEq string string
  | Or odata_filter odata_filter

definition quoted :: "string \<Rightarrow> string" where
  "quoted s = [CHR 0x27] @ s @ [CHR 0x27]"

fun render :: "odata_filter \<Rightarrow> string" where
  "render (SubstringOf t f) = ''substringof('' @ quoted t @ '','' @ f @ '') eq true''"
| "render (FieldEq f v) = f @ '' eq '' @ quoted v"
| "render (Or a b) = ''('' @ render a @ '' or '' @ render b @ '')''"

fun join :: "string \<Rightarrow> string list \<Rightarrow> string" where
  "join sep [] = []"
| "join sep [x] = x"
| "join sep (x # y # ys) = x @ sep @ join sep (y # ys)"

text \<open>\<open>where.find(w => w.val)?.val\<close>: the first truthy \<open>val\<close>.\<close>

fun find_val :: "where_item list \<Rightarrow> string option" where
  "find_val [] = None"
| "find_val (Operand (Some v) # ws) = (if v \<noteq> [] then Some v else find_val ws)"
| "find_val (w # ws) = find_val ws"

definition searchTerm :: "where_clause \<Rightarrow> string option" where
  "searchTerm w =
     (case elements w of
        Some ws \<Rightarrow> if Token ''or'' \<in> set ws then find_val ws else None
      | None \<Rightarrow> None)"

definition statusFilter :: "where_clause \<Rightarrow> string option" where
  "statusFilter w =
     (case status_prop w of
        Some s \<Rightarrow> if s \<noteq> [] then Some (if s = ''active'' then [] else ''X'') else None
      | None \<Rightarrow> None)"

definition READ_filters :: "select \<Rightarrow> odata_filter list" where
  "READ_filters sel =
     (case whereC sel of
        None \<Rightarrow> []
      | Some w \<Rightarrow>
          (case searchTerm w of
             Some t \<Rightarrow> [Or (SubstringOf t ''StorageBin'') (SubstringOf t ''Warehouse'')]
           | None \<Rightarrow> [])
          @ (case statusFilter w of
               Some flag \<Rightarrow> [FieldEq ''BlockingIndicator'' flag]
             | None \<Rightarrow> []))"

definition READ_query :: "select \<Rightarrow> string" where
  "READ_query sel =
     (let top = (case limit sel of Some n \<Rightarrow> if n = 0 then 100 else n | None \<Rightarrow> 100);
          skp = (case skip sel of Some n \<Rightarrow> n | None \<Rightarrow> 0);
          query = ''/A_WarehouseStorageBin?$format=json''
                  @ ''&$top='' @ int_toString top @ ''&$skip='' @ int_toString skp;
          filters = map render (READ_filters sel)
      in if filters \<noteq> [] then query @ ''&$filter='' @ join '' and '' filters else query)"

definition READ :: "'st api \<Rightarrow> string \<Rightarrow> select \<Rightarrow> 'st world \<Rightarrow> (req_error + bin list) \<times> 'st world" where
  "READ api now sel w =
     (case callS4API api (ReadCollection (READ_query sel)) w of
        (Inl e, w') \<Rightarrow> (Inl (Failed 500 ''Failed to read bins: '' e), w')
      | (Inr response, w') \<Rightarrow>
          (Inr (case payload_results response of
                  Some rs \<Rightarrow> map (mapS4ToBin now) rs
                | None \<Rightarrow> []), w'))"



section \<open>The CREATE, UPDATE, DELETE and statistics handlers of the S/4HANA service\<close>

text \<open>
  Request payloads (\<open>req.data\<close>) are \<open>bin\<close> objects in which any property may be missing;
  a property that is present has its declared type.
\<close>

definition stock_message :: string where
  "stock_message = ''Current stock cannot exceed capacity''"

definition CREATE :: "'st api \<Rightarrow> string \<Rightarrow> bin \<Rightarrow> 'st world \<Rightarrow> (req_error + bin) \<times> 'st world" where
  "CREATE api now data w =
     (if js_gt (currentStock data) (capacity data) then (Inl (Rejected 400 stock_message), w)
      else
        (case mapBinToS4 data of
           Inl e \<Rightarrow> (Inl (Failed 500 ''Failed to create bin: '' e), w)
         | Inr s4Data \<Rightarrow>
             (case callS4API api (CreateEntity s4Data) w of
                (Inl e, w') \<Rightarrow> (Inl (Failed 500 ''Failed to create bin: '' e), w')
              | (Inr response, w') \<Rightarrow>
                  (Inr (mapS4ToBin now (case response of Some p \<Rightarrow> payload_rec p | None \<Rightarrow> s4Data)),
                   w'))))"

text \<open>\<open>`${binId}`\<close>: a missing \<open>ID\<close> is interpolated as the text \<open>undefined\<close>.\<close>

fun id_text :: "string option \<Rightarrow> string" where
  "id_text (Some i) = i"
| "id_text None = ''undefined''"

text \<open>\<open>req.data.x !== undefined ? req.data.x : currentBin.x\<close>\<close>

fun supplied_or :: "'a option \<Rightarrow> 'a option \<Rightarrow> 'a option" where
  "supplied_or (Some v) cur = Some v"
| "supplied_or None cur = cur"

text \<open>\<open>{ ...currentBin, ...req.data }\<close>\<close>

definition spread :: "bin \<Rightarrow> bin \<Rightarrow> bin" where
  "spread currentBin data =
     \<lparr> ID = supplied_or (ID data) (ID currentBin),
       binNumber = supplied_or (binNumber data) (binNumber currentBin),
       location = supplied_or (location data) (location currentBin),
       capacity = supplied_or (capacity data) (capacity currentBin),
       currentStock = supplied_or (currentStock data) (currentStock currentBin),
       status = supplied_or (status data) (status currentBin),
       barcode = supplied_or (barcode data) (barcode currentBin),
       lastUpdated = supplied_or (lastUpdated data) (lastUpdated currentBin),
       createdAt = supplied_or (createdAt data) (createdAt currentBin) \<rparr>"

text \<open>\<open>mapS4ToBin(response.d)\<close> throws a \<open>TypeError\<close> when \<open>d\<close> is missing.\<close>

fun map_d :: "string \<Rightarrow> payload option \<Rightarrow> exn + bin" where
  "map_d now None = Inl TypeError"
| "map_d now (Some p) = Inr (mapS4ToBin now (payload_rec p))"

definition update_failed :: "exn \<Rightarrow> req_error" where
  "update_failed e = Failed 500 ''Failed to update bin: '' e"

definition UPDATE :: "'st api \<Rightarrow> string \<Rightarrow> bin \<Rightarrow> 'st world \<Rightarrow> (req_error + bin) \<times> 'st world" where
  "UPDATE api now data w =
     (let binId = id_text (ID data) in
      case callS4API api (ReadEntity binId) w of
        (Inl e, w1) \<Rightarrow> (Inl (update_failed e), w1)
      | (Inr currentResponse, w1) \<Rightarrow>
          (case map_d now currentResponse of
             Inl e \<Rightarrow> (Inl (update_failed e), w1)
           | Inr currentBin \<Rightarrow>
               if js_gt (supplied_or (currentStock data) (currentStock currentBin))
                        (supplied_or (capacity data) (capacity currentBin))
               then (Inl (Rejected 400 stock_message), w1)
               else
                 (case mapBinToS4 (spread currentBin data) of
                    Inl e \<Rightarrow> (Inl (update_failed e), w1)
                  | Inr s4Data \<Rightarrow>
                      (case callS4API api (PatchEntity binId s4Data) w1 of
                         (Inl e, w2) \<Rightarrow> (Inl (update_failed e), w2)
                       | (Inr patched, w2) \<Rightarrow>
                           (case callS4API api (ReadEntity binId) w2 of
                              (Inl e, w3) \<Rightarrow> (Inl (update_failed e), w3)
                            | (Inr updatedResponse, w3) \<Rightarrow>
                                (case map_d now updatedResponse of
                                   Inl e \<Rightarrow> (Inl (update_failed e), w3)
                                 | Inr updated \<Rightarrow> (Inr updated, w3)))))))"

definition DELETE :: "'st api \<Rightarrow> bin \<Rightarrow> 'st world \<Rightarrow> (req_error + unit) \<times> 'st world" where
  "DELETE api data w =
     (case callS4API api (DeleteEntity (id_text (ID data))) w of
        (Inl e, w') \<Rightarrow> (Inl (Failed 500 ''Failed to delete bin: '' e), w')
      | (Inr response, w') \<Rightarrow> (Inr (), w'))"

definition getBinStatistics :: "'st api \<Rightarrow> string \<Rightarrow> 'st world \<Rightarrow> (req_error + statistics) \<times> 'st world" where
  "getBinStatistics api now w =
     (case callS4API api (ReadCollection ''/A_WarehouseStorageBin?$format=json&$top=1000'') w of
        (Inl e, w') \<Rightarrow> (Inl (Failed 500 ''Failed to get statistics: '' e), w')
      | (Inr response, w') \<Rightarrow>
          (Inr (binStatistics (case payload_results response of
                                 Some rs \<Rightarrow> map (mapS4ToBin now) rs
                               | None \<Rightarrow> [])), w'))"

section \<open>The handlers of the database-backed service\<close>


definition before_CREATE :: "bin \<Rightarrow> req_error list" where
  "before_CREATE data =
     (if js_gt (currentStock data) (capacity data) then [Rejected 400 stock_message] else [])"

section \<open>An in-memory storage-bin table\<close>

text \<open>
  Modelled from the spec: the backing source of section 6 of the specification (\<open>query\<close>,
  \<open>get\<close> returning a record or failing when it is absent, \<open>insert\<close>, \<open>update\<close>, \<open>remove\<close>),
  as a list of records keyed by \<open>StorageBin\<close>. The S/4HANA service itself is outside the
  repository. This table serves a collection read whole (it does not interpret the query
  string), and \<open>unique\<close> says whether it refuses to insert a key it already holds.
\<close>

definition has_key :: "string \<Rightarrow> s4bin \<Rightarrow> bool" where
  "has_key k r = (StorageBin r = Some k)"

definition patch_rec :: "s4bin \<Rightarrow> s4bin \<Rightarrow> s4bin" where
  "patch_rec old new =
     \<lparr> StorageBin = supplied_or (StorageBin new) (StorageBin old),
       Warehouse = supplied_or (Warehouse new) (Warehouse old),
       StorageType = supplied_or (StorageType new) (StorageType old),
       MaximumStorageCapacity = supplied_or (MaximumStorageCapacity new) (MaximumStorageCapacity old),
       CurrentStock = supplied_or (CurrentStock new) (CurrentStock old),
       BlockingIndicator = supplied_or (BlockingIndicator new) (BlockingIndicator old),
       CreationDate = supplied_or (CreationDate new) (CreationDate old) \<rparr>"

definition not_found :: exn where
  "not_found = ApiError ''Request failed with status code 404''"

definition conflict :: exn where
  "conflict = ApiError ''Request failed with status code 400''"

fun table_api :: "bool \<Rightarrow> s4bin list api" where
  "table_api unique tbl (ReadCollection query) = (Inr (Some (Results tbl)), tbl)"
| "table_api unique tbl (ReadEntity k) =
     (case find (has_key k) tbl of
        Some r \<Rightarrow> (Inr (Some (Entity r)), tbl)
      | None \<Rightarrow> (Inl not_found, tbl))"
| "table_api unique tbl (CreateEntity r) =
     (if unique \<and> find (\<lambda>x. StorageBin x = StorageBin r) tbl \<noteq> None then (Inl conflict, tbl)
      else (Inr (Some (Entity r)), tbl @ [r]))"
| "table_api unique tbl (PatchEntity k r) =
     (case find (has_key k) tbl of
        Some old \<Rightarrow> (Inr None, map (\<lambda>x. if has_key k x then patch_rec x r else x) tbl)
      | None \<Rightarrow> (Inl not_found, tbl))"
| "table_api unique tbl (DeleteEntity k) =
     (case find (has_key k) tbl of
        Some old \<Rightarrow> (Inr None, filter (\<lambda>x. \<not> has_key k x) tbl)
      | None \<Rightarrow> (Inl not_found, tbl))"

section \<open>The create form of the mobile client\<close>

record formData =
  form_bin_number :: string
  form_location :: string
  form_capacity :: string
  form_current_stock :: string
  form_status :: string
  form_barcode :: string

text \<open>
  \<open>validateForm\<close> fills \<open>newErrors\<close>, an object keyed by field name, and succeeds when it
  has no key. \<open>handleSubmit\<close> returns before its \<open>fetch\<close> when validation fails; otherwise
  it posts the form with \<open>capacity\<close> and \<open>current_stock\<close> parsed.
\<close>

definition validateForm_errors :: "formData \<Rightarrow> (string \<times> string) list" where
  "validateForm_errors formData =
     (let e1 = (if trim (form_bin_number formData) = []
                then AList.update ''bin_number'' ''Bin number is required'' [] else []);
          e2 = (if trim (form_location formData) = []
                then AList.update ''location'' ''Location is required'' e1 else e1);
          e3 = (if form_capacity formData = [] \<or> js_le (parseInt (form_capacity formData)) (Num 0)
                then AList.update ''capacity'' ''Capacity must be greater than 0'' e2 else e2);
          stock = parseInt (str_or (Some (form_current_stock formData)) ''0'');
          cap = parseInt (str_or (Some (form_capacity formData)) ''0'');
          e4 = (if js_lt stock (Num 0)
                then AList.update ''current_stock'' ''Stock cannot be negative'' e3 else e3);
          e5 = (if js_gt (Some stock) (Some cap)
                then AList.update ''current_stock'' ''Stock cannot exceed capacity'' e4 else e4)
      in e5)"

definition validateForm :: "formData \<Rightarrow> bool" where
  "validateForm formData = (validateForm_errors formData = [])"

record create_body =
  body_form :: formData
  body_capacity :: jsnum
  body_current_stock :: jsnum

definition handleSubmit :: "formData \<Rightarrow> create_body option" where
  "handleSubmit formData =
     (if \<not> validateForm formData then None
      else Some \<lparr> body_form = formData,
                  body_capacity = parseInt (form_capacity formData),
                  body_current_stock = parseInt (str_or (Some (form_current_stock formData)) ''0'') \<rparr>)"

section \<open>The specification's scenarios as data\<close>

definition scenario_bin :: bin where
  "scenario_bin =
     \<lparr> ID = None, binNumber = Some ''BIN-A001'', location = Some ''Aisle A - Row 1'',
       capacity = Some (Num 1000), currentStock = Some (Num 750), status = Some ''active'',
       barcode = Some ''1234567890'', lastUpdated = None, createdAt = None \<rparr>"

definition stored :: "string \<Rightarrow> string \<Rightarrow> string \<Rightarrow> int \<Rightarrow> int \<Rightarrow> string \<Rightarrow> s4bin" where
  "stored k wh ty cap stock flag =
     \<lparr> StorageBin = Some k, Warehouse = Some wh, StorageType = Some ty,
       MaximumStorageCapacity = Some (Str (int_toString cap)),
       CurrentStock = Some (Str (int_toString stock)),
       BlockingIndicator = Some flag, CreationDate = None \<rparr>"

definition four_bins :: "s4bin list" where
  "four_bins =
     [stored ''BIN-A001'' ''Aisle A'' ''Row 1'' 1000 750 [],
      stored ''BIN-A002'' ''Aisle A'' ''Row 2'' 800 300 [],
      stored ''BIN-B001'' ''Aisle B'' ''Row 1'' 1200 1100 [],
      stored ''BIN-C001'' ''Aisle C'' ''Row 1'' 500 0 ''X'']"

definition instant :: string where
  "instant = ''2025-01-01T00:00:00.000Z''"

text \<open>An update request that supplies only the key and a new stock.\<close>

definition stock_update :: "string \<Rightarrow> int \<Rightarrow> bin" where
  "stock_update k n =
     \<lparr> ID = Some k, binNumber = None, location = None, capacity = None,
       currentStock = Some (Num n), status = None, barcode = None,
       lastUpdated = None, createdAt = None \<rparr>"

section \<open>The partial-update rule in the specification's words\<close>



definition only_bin_number :: "string \<Rightarrow> bin" where
  "only_bin_number k =
     \<lparr> ID = None, binNumber = Some k, location = None, capacity = None,
       currentStock = None, status = None, barcode = None,
       lastUpdated = None, createdAt = None \<rparr>"

section \<open>Facts about the JavaScript primitives\<close>

lemma digit_val_digit: "d < 10 \<Longrightarrow> digit_val (char_of (48 + d)) = Some d"
  by (simp add: digit_val_def)

lemma digits_ne: "digits n \<noteq> []"
  by (subst digits.simps) simp

lemma digits_all: "c \<in> set (digits n) \<Longrightarrow> \<exists>d::nat. d < 10 \<and> c = char_of (48 + d)"
proof (induction n rule: digits.induct)
  case (1 n)
  show ?case
  proof (cases "n < 10")
    case True
    with "1.prems" show ?thesis by (subst (asm) digits.simps) auto
  next
    case False
    with "1.prems" have "c \<in> set (digits (n div 10)) \<or> c = char_of (48 + n mod 10)"
      by (subst (asm) digits.simps) auto
    then show ?thesis
    proof
      assume "c \<in> set (digits (n div 10))"
      with False "1.IH" show ?thesis by simp
    next
      assume "c = char_of (48 + n mod 10)"
      moreover have "n mod 10 < 10" by simp
      ultimately show ?thesis by blast
    qed
  qed
qed

lemma digits_fold: "foldl (\<lambda>a c. a * 10 + digit_num c) 0 (digits n) = n"
proof (induction n rule: digits.induct)
  case (1 n)
  show ?case
  proof (cases "n < 10")
    case True
    then show ?thesis by (subst digits.simps) (simp add: digit_num_def digit_val_digit)
  next
    case False
    have "n mod 10 < 10" by simp
    then have "digit_num (char_of (48 + n mod 10)) = n mod 10"
      by (simp only: digit_num_def digit_val_digit option.case)
    with False "1.IH" show ?thesis by (subst digits.simps) simp
  qed
qed

lemma digits_dec:
  assumes "c \<in> set (digits n)"
  shows "is_radix_digit 10 c \<and> \<not> is_ws c \<and> c \<noteq> CHR ''-'' \<and> c \<noteq> CHR ''+'' \<and>
         c \<noteq> CHR ''x'' \<and> c \<noteq> CHR ''X''"
proof -
  from assms obtain d :: nat where d: "d < 10" "c = char_of (48 + d)"
    using digits_all by blast
  have v: "digit_val c = Some d" using d by (simp add: digit_val_digit)
  have o: "(of_char c :: nat) = 48 + d" using d by simp
  have "is_radix_digit 10 c" using v d by (simp add: is_radix_digit_def)
  moreover have "\<not> is_ws c" using o d(1) by (auto simp: is_ws_def)
  moreover have "c \<noteq> CHR ''-''" "c \<noteq> CHR ''+''" "c \<noteq> CHR ''x''" "c \<noteq> CHR ''X''"
    using o d(1) by auto
  ultimately show ?thesis by simp
qed

lemma take2_digits: "take 2 (digits n) \<noteq> ''0x'' \<and> take 2 (digits n) \<noteq> ''0X''"
proof -
  have "CHR ''x'' \<notin> set (take 2 (digits n))" "CHR ''X'' \<notin> set (take 2 (digits n))"
    using digits_dec [of _ n] by (auto dest: in_set_takeD)
  then show ?thesis by auto
qed

lemma takeWhile_digits: "takeWhile (is_radix_digit 10) (digits n) = digits n"
  using digits_dec [of _ n] by (simp add: takeWhile_eq_all_conv)

lemma parseInt_digits: "parseInt (digits n) = Num (int n)"
proof -
  have hd: "hd (digits n) \<in> set (digits n)" by (simp add: digits_ne)
  have ws: "dropWhile is_ws (digits n) = digits n"
    using digits_dec [OF hd] digits_ne [of n] by (cases "digits n") auto
  show ?thesis
    using digits_dec [OF hd] take2_digits [of n] digits_ne [of n]
    by (simp add: parseInt_def ws takeWhile_digits digits_fold Let_def)
qed

lemma parseInt_neg_digits: "parseInt (CHR ''-'' # digits n) = Num (- int n)"
proof -
  have nws: "\<not> is_ws CHR ''-''" by (simp add: is_ws_def)
  show ?thesis
    using take2_digits [of n] digits_ne [of n] nws
    by (simp add: parseInt_def takeWhile_digits digits_fold Let_def)
qed

lemma parseInt_int_toString: "parseInt (int_toString n) = Num n"
  by (simp add: int_toString_def parseInt_digits parseInt_neg_digits)

lemma int_toString_ne: "int_toString n \<noteq> []"
  by (simp add: int_toString_def digits_ne)

lemma parseInt_NaN: "parseInt ''NaN'' = NaN"
  by (simp add: parseInt_def is_ws_def is_radix_digit_def digit_val_def)

lemma num_toString_ne: "num_toString c \<noteq> []"
  by (cases c) (simp_all add: int_toString_ne)

lemma parseInt_num_toString: "parseInt (num_toString c) = c"
  by (cases c) (simp_all add: parseInt_NaN parseInt_int_toString)

lemma parseInt_or0_toString: "parseInt_or0 (Some (Str (num_toString c))) = c"
  by (simp add: num_toString_ne parseInt_num_toString)

lemma parseInt_or0_int_toString: "parseInt_or0 (Some (Str (int_toString n))) = Num n"
  by (simp add: int_toString_ne parseInt_int_toString)






section \<open>The field mapper\<close>

lemma mapBinToS4_present:
  assumes "location b = Some loc" "capacity b = Some c" "currentStock b = Some s"
  shows "mapBinToS4 b =
     Inr \<lparr> StorageBin = binNumber b,
           Warehouse = Some (trim (hd (split_on CHR ''-'' loc))),
           StorageType =
             Some (str_or (if 1 < length (split_on CHR ''-'' loc)
                           then Some (trim (split_on CHR ''-'' loc ! 1)) else None) ''BULK''),
           MaximumStorageCapacity = Some (Str (num_toString c)),
           CurrentStock = Some (Str (num_toString s)),
           BlockingIndicator = Some (if status b = Some ''active'' then [] else ''X''),
           CreationDate = None \<rparr>"
  using assms by (simp add: mapBinToS4_def)

text \<open>
  C1 (as amended). For every bin that has a location, a capacity and a current stock, and
  whose status is active or inactive, mapping to the S/4HANA record with \<open>mapBinToS4\<close> and
  back with \<open>mapS4ToBin\<close> gives a bin with the same binNumber, capacity, currentStock and
  status. The record has no barcode field: the barcode that comes back is the bin number
  (the empty string when there is none), whatever barcode the bin had.
\<close>

theorem roundtrip_preserves_all_but_barcode:
  assumes "location b = Some loc" and "capacity b = Some c" and "currentStock b = Some s"
    and "status b = Some ''active'' \<or> status b = Some ''inactive''"
  shows "\<exists>r. mapBinToS4 b = Inr r
            \<and> binNumber (mapS4ToBin now r) = binNumber b
            \<and> capacity (mapS4ToBin now r) = capacity b
            \<and> currentStock (mapS4ToBin now r) = currentStock b
            \<and> status (mapS4ToBin now r) = status b
            \<and> barcode (mapS4ToBin now r) = Some (str_or (binNumber b) [])"
proof -
  let ?r = "\<lparr> StorageBin = binNumber b,
           Warehouse = Some (trim (hd (split_on CHR ''-'' loc))),
           StorageType =
             Some (str_or (if 1 < length (split_on CHR ''-'' loc)
                           then Some (trim (split_on CHR ''-'' loc ! 1)) else None) ''BULK''),
           MaximumStorageCapacity = Some (Str (num_toString c)),
           CurrentStock = Some (Str (num_toString s)),
           BlockingIndicator = Some (if status b = Some ''active'' then [] else ''X''),
           CreationDate = None \<rparr>"
  have r: "mapBinToS4 b = Inr ?r"
    using assms(1-3) by (rule mapBinToS4_present)
  have "binNumber (mapS4ToBin now ?r) = binNumber b"
    by (simp add: mapS4ToBin_def)
  moreover have "capacity (mapS4ToBin now ?r) = capacity b"
    using assms(2) by (simp add: mapS4ToBin_def num_toString_ne parseInt_num_toString)
  moreover have "currentStock (mapS4ToBin now ?r) = currentStock b"
    using assms(3) by (simp add: mapS4ToBin_def num_toString_ne parseInt_num_toString)
  moreover have "status (mapS4ToBin now ?r) = status b"
    using assms(4) by (auto simp: mapS4ToBin_def)
  moreover have "barcode (mapS4ToBin now ?r) = Some (str_or (binNumber b) [])"
    by (simp add: mapS4ToBin_def)
  ultimately show ?thesis using r by blast
qed

theorem roundtrip_preserves_all_but_barcode_witness:
  "\<exists>r. mapBinToS4 scenario_bin = Inr r
      \<and> binNumber (mapS4ToBin instant r) = Some ''BIN-A001''
      \<and> capacity (mapS4ToBin instant r) = Some (Num 1000)
      \<and> currentStock (mapS4ToBin instant r) = Some (Num 750)
      \<and> status (mapS4ToBin instant r) = Some ''active''
      \<and> barcode (mapS4ToBin instant r) = Some ''BIN-A001''"
  using roundtrip_preserves_all_but_barcode
    [of scenario_bin "''Aisle A - Row 1''" "Num 1000" "Num 750" instant]
  by (simp add: scenario_bin_def)

theorem roundtrip_barcode_counterexample:
  "(case mapBinToS4 scenario_bin of
      Inr r \<Rightarrow> barcode (mapS4ToBin instant r)
    | Inl e \<Rightarrow> None) = Some ''BIN-A001''
   \<and> barcode scenario_bin = Some ''1234567890''
   \<and> (case mapBinToS4 scenario_bin of
        Inr r \<Rightarrow> barcode (mapS4ToBin instant r)
      | Inl e \<Rightarrow> None) \<noteq> barcode scenario_bin"
  by (simp add: scenario_bin_def mapBinToS4_def mapS4ToBin_def)





text \<open>
  C9 (as amended). For every source record that carries a StorageBin value, the bin made by
  \<open>mapS4ToBin\<close> has ID, binNumber and barcode all equal to that value, so looking a key up
  by ID and looking it up by barcode among mapped bins find the same bin. (For a record
  without StorageBin, ID and binNumber are missing while barcode is the empty string.)
\<close>

theorem mapS4ToBin_single_key:
  assumes "\<forall>r \<in> set rs. StorageBin r \<noteq> None"
  shows "(\<forall>r \<in> set rs. ID (mapS4ToBin now r) = StorageBin r
                      \<and> binNumber (mapS4ToBin now r) = StorageBin r
                      \<and> barcode (mapS4ToBin now r) = StorageBin r)
       \<and> find (\<lambda>b. ID b = Some k) (map (mapS4ToBin now) rs)
           = find (\<lambda>b. barcode b = Some k) (map (mapS4ToBin now) rs)"
proof -
  have key: "ID (mapS4ToBin now r) = StorageBin r \<and> binNumber (mapS4ToBin now r) = StorageBin r
             \<and> barcode (mapS4ToBin now r) = StorageBin r" if "r \<in> set rs" for r
  proof -
    from assms that obtain s where "StorageBin r = Some s" by auto
    then show ?thesis by (simp add: mapS4ToBin_def)
  qed
  have "find (\<lambda>b. ID b = Some k) (map (mapS4ToBin now) rs)
          = find (\<lambda>b. barcode b = Some k) (map (mapS4ToBin now) rs)"
    by (rule find_cong) (auto simp: key)
  with key show ?thesis by blast
qed

theorem mapS4ToBin_single_key_witness:
  "map StorageBin four_bins = [Some ''BIN-A001'', Some ''BIN-A002'', Some ''BIN-B001'', Some ''BIN-C001'']
   \<and> ID (mapS4ToBin instant (four_bins ! 2)) = Some ''BIN-B001''
   \<and> binNumber (mapS4ToBin instant (four_bins ! 2)) = Some ''BIN-B001''
   \<and> barcode (mapS4ToBin instant (four_bins ! 2)) = Some ''BIN-B001''
   \<and> find (\<lambda>b. ID b = Some ''BIN-B001'') (map (mapS4ToBin instant) four_bins)
       = find (\<lambda>b. barcode b = Some ''BIN-B001'') (map (mapS4ToBin instant) four_bins)"
proof -
  have h: "\<forall>r \<in> set four_bins. StorageBin r \<noteq> None"
    by (simp add: four_bins_def stored_def)
  have m: "four_bins ! 2 \<in> set four_bins"
    by (simp add: four_bins_def)
  show ?thesis
    using mapS4ToBin_single_key [OF h, of instant "''BIN-B001''"] m
    by (auto simp: four_bins_def stored_def)
qed

theorem mapS4ToBin_missing_key_counterexample:
  "ID (mapS4ToBin instant no_fields) = None
   \<and> binNumber (mapS4ToBin instant no_fields) = None
   \<and> barcode (mapS4ToBin instant no_fields) = Some []
   \<and> ID (mapS4ToBin instant no_fields) \<noteq> barcode (mapS4ToBin instant no_fields)"
  by (simp add: mapS4ToBin_def no_fields_def)

section \<open>Statistics\<close>

lemma foldl_plus: "foldl (\<lambda>sum b. sum + f b) a bs = a + sum_list (map f bs)" for a :: int
  by (induction bs arbitrary: a) simp_all



lemma binStatistics_fields:
  "totalBins (binStatistics bs) = int (length bs)"
  "activeBins (binStatistics bs) = int (length (filter (\<lambda>b. status b = Some ''active'') bs))"
  "inactiveBins (binStatistics bs) = totalBins (binStatistics bs) - activeBins (binStatistics bs)"
  "totalCapacity (binStatistics bs) = sum_list (map (\<lambda>b. num_or0 (capacity b)) bs)"
  "totalStock (binStatistics bs) = sum_list (map (\<lambda>b. num_or0 (currentStock b)) bs)"
  "utilizationPercentage (binStatistics bs) =
     (if 0 < totalCapacity (binStatistics bs)
      then toFixed2 (of_int (totalStock (binStatistics bs))
                      / of_int (totalCapacity (binStatistics bs)) * 100)
      else 0)"
  by (simp_all add: binStatistics_def Let_def foldl_plus)

lemma getBinStatistics_results:
  assumes "api st (ReadCollection ''/A_WarehouseStorageBin?$format=json&$top=1000'')
             = (Inr (Some (Results rs)), st')"
  shows "fst (getBinStatistics api now (st, lg)) = Inr (binStatistics (map (mapS4ToBin now) rs))"
  using assms by (simp add: getBinStatistics_def callS4API_def)

lemma mapS4ToBin_stored:
  "mapS4ToBin now (stored k wh ty cap stock flag) =
     \<lparr> ID = Some k, binNumber = Some k,
       location = Some (trim (wh @ '' - '' @ ty)),
       capacity = Some (Num cap), currentStock = Some (Num stock),
       status = Some (if flag \<noteq> [] then ''inactive'' else ''active''),
       barcode = Some k, lastUpdated = Some now, createdAt = Some now \<rparr>"
  by (simp add: mapS4ToBin_def stored_def int_toString_ne parseInt_int_toString)





section \<open>The handlers\<close>

lemma mapBinToS4_scenario:
  "mapBinToS4 scenario_bin = Inr (stored ''BIN-A001'' ''Aisle A'' ''Row 1'' 1000 750 [])"
  by (simp add: scenario_bin_def mapBinToS4_def stored_def trim_def is_ws_def)

lemma find_first_of_four:
  "find (has_key ''BIN-A001'') four_bins = Some (stored ''BIN-A001'' ''Aisle A'' ''Row 1'' 1000 750 [])"
  by (simp add: four_bins_def has_key_def stored_def)

lemma CREATE_rejects:
  assumes "js_gt (currentStock data) (capacity data)"
  shows "CREATE api now data w = (Inl (Rejected 400 stock_message), w)"
  using assms by (simp add: CREATE_def)

lemma CREATE_calls:
  assumes "\<not> js_gt (currentStock data) (capacity data)" and "mapBinToS4 data = Inr s4Data"
  shows "CREATE api now data (st, lg) =
     (case api st (CreateEntity s4Data) of
        (Inl e, st') \<Rightarrow> (Inl (Failed 500 ''Failed to create bin: '' e), (st', lg @ [CreateEntity s4Data]))
      | (Inr response, st') \<Rightarrow>
          (Inr (mapS4ToBin now (case response of Some p \<Rightarrow> payload_rec p | None \<Rightarrow> s4Data)),
           (st', lg @ [CreateEntity s4Data])))"
  using assms by (simp add: CREATE_def callS4API_def split: prod.splits sum.splits)


lemma spread_stock_capacity:
  "currentStock (spread cur data) = supplied_or (currentStock data) (currentStock cur)"
  "capacity (spread cur data) = supplied_or (capacity data) (capacity cur)"
  by (simp_all add: spread_def)

lemma UPDATE_rejects:
  assumes "api st (ReadEntity (id_text (ID data))) = (Inr (Some current), st1)"
    and "js_gt (currentStock (spread (mapS4ToBin now (payload_rec current)) data))
               (capacity (spread (mapS4ToBin now (payload_rec current)) data))"
  shows "UPDATE api now data (st, lg)
           = (Inl (Rejected 400 stock_message), (st1, lg @ [ReadEntity (id_text (ID data))]))"
  using assms by (simp add: UPDATE_def callS4API_def spread_stock_capacity)




text \<open>
  C2. A create request whose currentStock exceeds its capacity is answered with the error
  400 \<open>Current stock cannot exceed capacity\<close> and the service is not called at all. An
  update request whose merged currentStock exceeds the merged capacity is answered with the
  same error after the one read of the current record: no write is issued, and on the
  storage-bin table the stored records are exactly what they were.
\<close>

theorem stock_over_capacity_rejected_before_write:
  "(js_gt (currentStock data) (capacity data) \<longrightarrow>
      CREATE api now data (st, lg) = (Inl (Rejected 400 stock_message), (st, lg)))
   \<and> (api st (ReadEntity (id_text (ID data))) = (Inr (Some current), st1)
        \<and> js_gt (currentStock (spread (mapS4ToBin now (payload_rec current)) data))
                 (capacity (spread (mapS4ToBin now (payload_rec current)) data)) \<longrightarrow>
      UPDATE api now data (st, lg)
        = (Inl (Rejected 400 stock_message), (st1, lg @ [ReadEntity (id_text (ID data))])))
   \<and> (find (has_key (id_text (ID data))) tbl = Some r
        \<and> js_gt (currentStock (spread (mapS4ToBin now r) data))
                 (capacity (spread (mapS4ToBin now r) data)) \<longrightarrow>
      UPDATE (table_api unique) now data (tbl, lg)
        = (Inl (Rejected 400 stock_message), (tbl, lg @ [ReadEntity (id_text (ID data))])))"
proof (intro conjI impI)
  assume "js_gt (currentStock data) (capacity data)"
  then show "CREATE api now data (st, lg) = (Inl (Rejected 400 stock_message), (st, lg))"
    by (rule CREATE_rejects)
next
  assume "api st (ReadEntity (id_text (ID data))) = (Inr (Some current), st1)
        \<and> js_gt (currentStock (spread (mapS4ToBin now (payload_rec current)) data))
                 (capacity (spread (mapS4ToBin now (payload_rec current)) data))"
  then show "UPDATE api now data (st, lg)
        = (Inl (Rejected 400 stock_message), (st1, lg @ [ReadEntity (id_text (ID data))]))"
    by (simp add: UPDATE_rejects)
next
  assume a: "find (has_key (id_text (ID data))) tbl = Some r
        \<and> js_gt (currentStock (spread (mapS4ToBin now r) data))
                 (capacity (spread (mapS4ToBin now r) data))"
  then have "table_api unique tbl (ReadEntity (id_text (ID data))) = (Inr (Some (Entity r)), tbl)"
    by simp
  moreover have "js_gt (currentStock (spread (mapS4ToBin now (payload_rec (Entity r))) data))
                 (capacity (spread (mapS4ToBin now (payload_rec (Entity r))) data))"
    using a by simp
  ultimately show "UPDATE (table_api unique) now data (tbl, lg)
        = (Inl (Rejected 400 stock_message), (tbl, lg @ [ReadEntity (id_text (ID data))]))"
    by (rule UPDATE_rejects)
qed

theorem stock_over_capacity_rejected_before_write_witness:
  "js_gt (Some (Num 1300)) (Some (Num 1000))
   \<and> CREATE (table_api True) instant (scenario_bin \<lparr> currentStock := Some (Num 1300) \<rparr>) (four_bins, [])
       = (Inl (Rejected 400 stock_message), (four_bins, []))
   \<and> UPDATE (table_api True) instant (stock_update ''BIN-A001'' 1300) (four_bins, [])
       = (Inl (Rejected 400 stock_message), (four_bins, [ReadEntity ''BIN-A001'']))"
proof -
  have c: "js_gt (currentStock (scenario_bin \<lparr> currentStock := Some (Num 1300) \<rparr>))
                 (capacity (scenario_bin \<lparr> currentStock := Some (Num 1300) \<rparr>))"
    by (simp add: scenario_bin_def)
  have u: "find (has_key (id_text (ID (stock_update ''BIN-A001'' 1300)))) four_bins
             = Some (stored ''BIN-A001'' ''Aisle A'' ''Row 1'' 1000 750 [])
           \<and> js_gt (currentStock (spread (mapS4ToBin instant
                       (stored ''BIN-A001'' ''Aisle A'' ''Row 1'' 1000 750 []))
                       (stock_update ''BIN-A001'' 1300)))
                    (capacity (spread (mapS4ToBin instant
                       (stored ''BIN-A001'' ''Aisle A'' ''Row 1'' 1000 750 []))
                       (stock_update ''BIN-A001'' 1300)))"
    by (simp add: stock_update_def find_first_of_four mapS4ToBin_stored spread_def)
  have "CREATE (table_api True) instant (scenario_bin \<lparr> currentStock := Some (Num 1300) \<rparr>)
          (four_bins, []) = (Inl (Rejected 400 stock_message), (four_bins, []))"
    using stock_over_capacity_rejected_before_write
      [where data = "scenario_bin \<lparr> currentStock := Some (Num 1300) \<rparr>"
         and api = "table_api True" and now = instant and st = four_bins and lg = "[]",
       THEN conjunct1, rule_format, OF c] .
  moreover have "UPDATE (table_api True) instant (stock_update ''BIN-A001'' 1300) (four_bins, [])
       = (Inl (Rejected 400 stock_message), (four_bins, [ReadEntity ''BIN-A001'']))"
    using stock_over_capacity_rejected_before_write
      [where data = "stock_update ''BIN-A001'' 1300" and now = instant and tbl = four_bins
         and r = "stored ''BIN-A001'' ''Aisle A'' ''Row 1'' 1000 750 []" and lg = "[]"
         and unique = True,
       THEN conjunct2, THEN conjunct2, rule_format, OF u]
    by (simp add: stock_update_def)
  ultimately show ?thesis by simp
qed

text \<open>
  C6 (as amended). The CREATE handler makes no lookup before it writes. For every create
  request that passes the stock check and can be mapped, the only request the handler
  issues is the insert of the mapped record. Whether a bin number that already exists is
  refused is decided by the service: a failure it raises comes back as the error 500
  \<open>Failed to create bin: ...\<close>, and when it accepts the insert the create succeeds.
\<close>

theorem create_posts_without_lookup:
  assumes "\<not> js_gt (currentStock data) (capacity data)" and "mapBinToS4 data = Inr s4Data"
  shows "snd (snd (CREATE api now data (st, lg))) = lg @ [CreateEntity s4Data]
       \<and> (\<forall>e st'. api st (CreateEntity s4Data) = (Inl e, st') \<longrightarrow>
            CREATE api now data (st, lg)
              = (Inl (Failed 500 ''Failed to create bin: '' e), (st', lg @ [CreateEntity s4Data])))
       \<and> (\<forall>response st'. api st (CreateEntity s4Data) = (Inr response, st') \<longrightarrow>
            CREATE api now data (st, lg)
              = (Inr (mapS4ToBin now (case response of Some p \<Rightarrow> payload_rec p | None \<Rightarrow> s4Data)),
                 (st', lg @ [CreateEntity s4Data])))"
  by (simp add: CREATE_calls [OF assms] split: prod.splits sum.splits)

theorem create_posts_without_lookup_witness:
  "\<not> js_gt (currentStock scenario_bin) (capacity scenario_bin)
   \<and> mapBinToS4 scenario_bin = Inr (stored ''BIN-A001'' ''Aisle A'' ''Row 1'' 1000 750 [])
   \<and> snd (snd (CREATE (table_api True) instant scenario_bin ([], [])))
       = [CreateEntity (stored ''BIN-A001'' ''Aisle A'' ''Row 1'' 1000 750 [])]
   \<and> CREATE (table_api True) instant scenario_bin ([], [])
       = (Inr (mapS4ToBin instant (stored ''BIN-A001'' ''Aisle A'' ''Row 1'' 1000 750 [])),
          ([stored ''BIN-A001'' ''Aisle A'' ''Row 1'' 1000 750 []],
           [CreateEntity (stored ''BIN-A001'' ''Aisle A'' ''Row 1'' 1000 750 [])]))"
proof -
  have h: "\<not> js_gt (currentStock scenario_bin) (capacity scenario_bin)"
    by (simp add: scenario_bin_def)
  show ?thesis
    using create_posts_without_lookup
      [OF h mapBinToS4_scenario, where api = "table_api True" and now = instant
         and st = "[]" and lg = "[]"] h
    by (simp add: mapBinToS4_scenario)
qed

theorem create_duplicate_counterexample:
  "find (has_key ''BIN-A001'') four_bins
     = Some (stored ''BIN-A001'' ''Aisle A'' ''Row 1'' 1000 750 [])
   \<and> binNumber scenario_bin = Some ''BIN-A001''
   \<and> CREATE (table_api False) instant scenario_bin (four_bins, [])
       = (Inr (mapS4ToBin instant (stored ''BIN-A001'' ''Aisle A'' ''Row 1'' 1000 750 [])),
          (four_bins @ [stored ''BIN-A001'' ''Aisle A'' ''Row 1'' 1000 750 []],
           [CreateEntity (stored ''BIN-A001'' ''Aisle A'' ''Row 1'' 1000 750 [])]))
   \<and> CREATE (table_api True) instant scenario_bin (four_bins, [])
       = (Inl (Failed 500 ''Failed to create bin: '' conflict),
          (four_bins, [CreateEntity (stored ''BIN-A001'' ''Aisle A'' ''Row 1'' 1000 750 [])]))"
proof -
  have h: "\<not> js_gt (currentStock scenario_bin) (capacity scenario_bin)"
    by (simp add: scenario_bin_def)
  have dup: "find (\<lambda>x. StorageBin x = StorageBin (stored ''BIN-A001'' ''Aisle A'' ''Row 1'' 1000 750 []))
               four_bins \<noteq> None"
    by (simp add: four_bins_def stored_def)
  show ?thesis
    using dup
    by (simp add: CREATE_calls [OF h mapBinToS4_scenario] find_first_of_four)
      (simp add: scenario_bin_def)
qed









lemma READ_results:
  assumes "api st (ReadCollection (READ_query sel)) = (Inr (Some (Results rs)), st')"
  shows "fst (READ api now sel (st, lg)) = Inr (map (mapS4ToBin now) rs)"
  using assms by (simp add: READ_def callS4API_def)

lemma toFixed2_at_least_100:
  assumes "100 \<le> x"
  shows "100 \<le> toFixed2 x"
proof -
  have "of_int (10000::int) \<le> x * 100 + 1 / 2" using assms by simp
  then have "(10000::int) \<le> \<lfloor>x * 100 + 1 / 2\<rfloor>" by (simp only: le_floor_iff)
  then have "(of_int 10000 :: rat) \<le> of_int \<lfloor>x * 100 + 1 / 2\<rfloor>" by (simp only: of_int_le_iff)
  then have "100 \<le> (of_int \<lfloor>x * 100 + 1 / 2\<rfloor> :: rat) / 100" by simp
  moreover have "\<not> x < 0" using assms by simp
  ultimately show ?thesis by (simp add: toFixed2_def)
qed

lemma overfull_utilization:
  "utilizationPercentage (binStatistics [mapS4ToBin now (stored k wh ty 10 25 flag)]) = 250"
proof -
  have "\<lfloor>(50001::rat) / 2\<rfloor> = 25000"
    by (rule floor_unique) simp_all
  then show ?thesis
    by (simp add: mapS4ToBin_stored binStatistics_def toFixed2_def)
qed

text \<open>
  C10. \<open>mapS4ToBin\<close> does not compare stock with capacity. For every source record whose
  parsed CurrentStock exceeds its parsed MaximumStorageCapacity, the mapped bin has
  currentStock greater than capacity; the READ handler returns exactly the mapped records
  it read, this bin among them, and \<open>getBinStatistics\<close> aggregates exactly the mapped
  records; the statistics of such a bin alone have totalStock above totalCapacity and a
  utilization of at least 100 (250 for capacity 10 and stock 25). The same bin sent to the
  CREATE handler is rejected: the check exists on the write paths only.
\<close>

theorem overfull_records_pass_through_reads:
  assumes "js_gt (Some (parseInt_or0 (CurrentStock r))) (Some (parseInt_or0 (MaximumStorageCapacity r)))"
  shows "js_gt (currentStock (mapS4ToBin now r)) (capacity (mapS4ToBin now r))
       \<and> (api st (ReadCollection (READ_query sel)) = (Inr (Some (Results rs)), st') \<and> r \<in> set rs \<longrightarrow>
            fst (READ api now sel (st, lg)) = Inr (map (mapS4ToBin now) rs)
            \<and> mapS4ToBin now r \<in> set (map (mapS4ToBin now) rs))
       \<and> (api st (ReadCollection ''/A_WarehouseStorageBin?$format=json&$top=1000'')
              = (Inr (Some (Results rs)), st') \<longrightarrow>
            fst (getBinStatistics api now (st, lg)) = Inr (binStatistics (map (mapS4ToBin now) rs)))
       \<and> totalCapacity (binStatistics [mapS4ToBin now r]) < totalStock (binStatistics [mapS4ToBin now r])
       \<and> (0 < totalCapacity (binStatistics [mapS4ToBin now r]) \<longrightarrow>
            100 \<le> utilizationPercentage (binStatistics [mapS4ToBin now r]))
       \<and> utilizationPercentage
            (binStatistics [mapS4ToBin now (stored ''B'' ''W'' ''T'' 10 25 [])]) = 250
       \<and> CREATE api now (mapS4ToBin now r) (st, lg) = (Inl (Rejected 400 stock_message), (st, lg))"
proof -
  from assms obtain a b where ab:
    "parseInt_or0 (CurrentStock r) = Num a" "parseInt_or0 (MaximumStorageCapacity r) = Num b" "b < a"
    by (cases "parseInt_or0 (CurrentStock r)"; cases "parseInt_or0 (MaximumStorageCapacity r)") auto
  have fields: "currentStock (mapS4ToBin now r) = Some (Num a)" "capacity (mapS4ToBin now r) = Some (Num b)"
    using ab by (simp_all add: mapS4ToBin_def)
  have over: "js_gt (currentStock (mapS4ToBin now r)) (capacity (mapS4ToBin now r))"
    using ab(3) by (simp add: fields)
  have totals: "totalCapacity (binStatistics [mapS4ToBin now r]) = b"
    "totalStock (binStatistics [mapS4ToBin now r]) = a"
    by (simp_all add: binStatistics_fields fields)
  have util: "100 \<le> utilizationPercentage (binStatistics [mapS4ToBin now r])" if "0 < b"
  proof -
    have "(of_int b :: rat) \<le> of_int a" using ab(3) by simp
    moreover have "(0::rat) < of_int b" using that by simp
    ultimately have "(100::rat) \<le> of_int a / of_int b * 100"
      by (simp add: le_divide_eq)
    then have "100 \<le> toFixed2 (of_int a / of_int b * 100)"
      by (rule toFixed2_at_least_100)
    then show ?thesis using that by (simp add: binStatistics_fields(6) totals)
  qed
  have "CREATE api now (mapS4ToBin now r) (st, lg) = (Inl (Rejected 400 stock_message), (st, lg))"
    using over by (rule CREATE_rejects)
  then show ?thesis
    using over util ab(3)
    by (simp add: READ_results getBinStatistics_results totals overfull_utilization)
qed

theorem overfull_records_pass_through_reads_witness:
  "js_gt (Some (parseInt_or0 (CurrentStock (stored ''B'' ''W'' ''T'' 10 25 []))))
         (Some (parseInt_or0 (MaximumStorageCapacity (stored ''B'' ''W'' ''T'' 10 25 []))))
   \<and> currentStock (mapS4ToBin instant (stored ''B'' ''W'' ''T'' 10 25 [])) = Some (Num 25)
   \<and> capacity (mapS4ToBin instant (stored ''B'' ''W'' ''T'' 10 25 [])) = Some (Num 10)
   \<and> fst (READ (table_api True) instant \<lparr> limit = None, skip = None, whereC = None \<rparr>
             ([stored ''B'' ''W'' ''T'' 10 25 []], []))
       = Inr [mapS4ToBin instant (stored ''B'' ''W'' ''T'' 10 25 [])]
   \<and> utilizationPercentage (binStatistics [mapS4ToBin instant (stored ''B'' ''W'' ''T'' 10 25 [])])
       = 250
   \<and> CREATE (table_api True) instant (mapS4ToBin instant (stored ''B'' ''W'' ''T'' 10 25 []))
        ([stored ''B'' ''W'' ''T'' 10 25 []], [])
       = (Inl (Rejected 400 stock_message), ([stored ''B'' ''W'' ''T'' 10 25 []], []))"
proof -
  have h: "js_gt (Some (parseInt_or0 (CurrentStock (stored ''B'' ''W'' ''T'' 10 25 []))))
                 (Some (parseInt_or0 (MaximumStorageCapacity (stored ''B'' ''W'' ''T'' 10 25 []))))"
    by (simp add: stored_def int_toString_ne parseInt_int_toString)
  show ?thesis
    using h overfull_records_pass_through_reads
      [OF h, where now = instant and api = "table_api True"
         and st = "[stored ''B'' ''W'' ''T'' 10 25 []]" and lg = "[]"
         and sel = "\<lparr> limit = None, skip = None, whereC = None \<rparr>"
         and rs = "[stored ''B'' ''W'' ''T'' 10 25 []]"
         and st' = "[stored ''B'' ''W'' ''T'' 10 25 []]"]
    by (simp add: mapS4ToBin_stored)
qed

section \<open>Query translation\<close>









section \<open>Required fields\<close>

lemma map_of_errors_bin_number:
  "trim (form_bin_number f) = [] \<Longrightarrow>
     map_of (validateForm_errors f) ''bin_number'' = Some ''Bin number is required''"
  by (simp add: validateForm_errors_def Let_def update_conv')

lemma map_of_errors_location:
  "trim (form_location f) = [] \<Longrightarrow>
     map_of (validateForm_errors f) ''location'' = Some ''Location is required''"
  by (simp add: validateForm_errors_def Let_def update_conv')

lemma map_of_errors_capacity:
  "form_capacity f = [] \<Longrightarrow>
     map_of (validateForm_errors f) ''capacity'' = Some ''Capacity must be greater than 0''"
  by (simp add: validateForm_errors_def Let_def update_conv')

lemma error_blocks_submit:
  assumes "map_of (validateForm_errors f) k = Some v"
  shows "handleSubmit f = None"
proof -
  from assms have "validateForm_errors f \<noteq> []" by auto
  then show ?thesis by (simp add: handleSubmit_def validateForm_def)
qed

lemma CREATE_missing_property:
  assumes "location data = None \<or> capacity data = None \<or> currentStock data = None"
  shows "CREATE api now data w =
     (Inl (if js_gt (currentStock data) (capacity data) then Rejected 400 stock_message
           else Failed 500 ''Failed to create bin: '' TypeError), w)"
proof -
  from assms have "mapBinToS4 data = Inl TypeError"
    by (auto simp: mapBinToS4_def split: option.splits)
  then show ?thesis by (simp add: CREATE_def)
qed

text \<open>
  C8 (as amended). Required fields are checked by the create form of the client, not by
  the service handlers. For every form whose bin number or location is blank after
  trimming, or whose capacity is the empty string, \<open>validateForm\<close> records an error under
  that field's name and \<open>handleSubmit\<close> returns without sending the create request. On the
  service side the only error the database-backed create check can raise is the stock
  error, and the S/4HANA CREATE handler, given a request without location, capacity or
  current stock, fails before calling the service, with the stock error or with the error
  500 \<open>Failed to create bin: ...\<close> of a \<open>TypeError\<close>, which names no field.
\<close>

theorem create_form_requires_fields:
  "(trim (form_bin_number f) = [] \<longrightarrow>
      map_of (validateForm_errors f) ''bin_number'' = Some ''Bin number is required''
      \<and> handleSubmit f = None)
   \<and> (trim (form_location f) = [] \<longrightarrow>
        map_of (validateForm_errors f) ''location'' = Some ''Location is required''
        \<and> handleSubmit f = None)
   \<and> (form_capacity f = [] \<longrightarrow>
        map_of (validateForm_errors f) ''capacity'' = Some ''Capacity must be greater than 0''
        \<and> handleSubmit f = None)
   \<and> (before_CREATE data = [] \<or> before_CREATE data = [Rejected 400 stock_message])
   \<and> (location data = None \<or> capacity data = None \<or> currentStock data = None \<longrightarrow>
        CREATE api now data w =
          (Inl (if js_gt (currentStock data) (capacity data) then Rejected 400 stock_message
                else Failed 500 ''Failed to create bin: '' TypeError), w))"
proof (intro conjI impI)
  assume a: "trim (form_bin_number f) = []"
  show "map_of (validateForm_errors f) ''bin_number'' = Some ''Bin number is required''"
    using a by (rule map_of_errors_bin_number)
  then show "handleSubmit f = None" by (rule error_blocks_submit)
next
  assume a: "trim (form_location f) = []"
  show "map_of (validateForm_errors f) ''location'' = Some ''Location is required''"
    using a by (rule map_of_errors_location)
  then show "handleSubmit f = None" by (rule error_blocks_submit)
next
  assume a: "form_capacity f = []"
  show "map_of (validateForm_errors f) ''capacity'' = Some ''Capacity must be greater than 0''"
    using a by (rule map_of_errors_capacity)
  then show "handleSubmit f = None" by (rule error_blocks_submit)
next
  show "before_CREATE data = [] \<or> before_CREATE data = [Rejected 400 stock_message]"
    by (simp add: before_CREATE_def)
next
  assume "location data = None \<or> capacity data = None \<or> currentStock data = None"
  then show "CREATE api now data w =
          (Inl (if js_gt (currentStock data) (capacity data) then Rejected 400 stock_message
                else Failed 500 ''Failed to create bin: '' TypeError), w)"
    by (rule CREATE_missing_property)
qed

theorem create_form_requires_fields_witness:
  "trim (form_bin_number \<lparr> form_bin_number = ''  '', form_location = ''Aisle A'',
           form_capacity = [], form_current_stock = ''0'', form_status = ''active'',
           form_barcode = [] \<rparr>) = []
   \<and> map_of (validateForm_errors \<lparr> form_bin_number = ''  '', form_location = ''Aisle A'',
           form_capacity = [], form_current_stock = ''0'', form_status = ''active'',
           form_barcode = [] \<rparr>) ''bin_number'' = Some ''Bin number is required''
   \<and> map_of (validateForm_errors \<lparr> form_bin_number = ''  '', form_location = ''Aisle A'',
           form_capacity = [], form_current_stock = ''0'', form_status = ''active'',
           form_barcode = [] \<rparr>) ''capacity'' = Some ''Capacity must be greater than 0''
   \<and> handleSubmit \<lparr> form_bin_number = ''  '', form_location = ''Aisle A'',
           form_capacity = [], form_current_stock = ''0'', form_status = ''active'',
           form_barcode = [] \<rparr> = None
   \<and> CREATE (table_api True) instant (only_bin_number ''BIN-X'') ([], [])
       = (Inl (Failed 500 ''Failed to create bin: '' TypeError), ([], []))"
proof -
  let ?f = "\<lparr> form_bin_number = ''  '', form_location = ''Aisle A'',
           form_capacity = [], form_current_stock = ''0'', form_status = ''active'',
           form_barcode = [] \<rparr>"
  have blank: "trim (form_bin_number ?f) = []"
    by (simp add: trim_def is_ws_def)
  have cap: "form_capacity ?f = []" by simp
  have miss: "location (only_bin_number ''BIN-X'') = None
              \<or> capacity (only_bin_number ''BIN-X'') = None
              \<or> currentStock (only_bin_number ''BIN-X'') = None"
    by (simp add: only_bin_number_def)
  note inst = create_form_requires_fields
    [where f = ?f and data = "only_bin_number ''BIN-X''" and api = "table_api True"
       and now = instant and w = "([], [])"]
  have 1: "map_of (validateForm_errors ?f) ''bin_number'' = Some ''Bin number is required''
           \<and> handleSubmit ?f = None"
    using inst [THEN conjunct1, rule_format, OF blank] .
  have 2: "map_of (validateForm_errors ?f) ''capacity'' = Some ''Capacity must be greater than 0''
           \<and> handleSubmit ?f = None"
    using inst [THEN conjunct2, THEN conjunct2, THEN conjunct1, rule_format, OF cap] .
  have 3: "CREATE (table_api True) instant (only_bin_number ''BIN-X'') ([], [])
       = (Inl (Failed 500 ''Failed to create bin: '' TypeError), ([], []))"
    using inst [THEN conjunct2, THEN conjunct2, THEN conjunct2, THEN conjunct2, rule_format, OF miss]
    by (simp add: only_bin_number_def)
  from blank 1 2 3 show ?thesis by simp
qed

theorem create_without_location_counterexample:
  "location (only_bin_number ''BIN-X'') = None
   \<and> capacity (only_bin_number ''BIN-X'') = None
   \<and> before_CREATE (only_bin_number ''BIN-X'') = []
   \<and> CREATE (table_api True) instant (only_bin_number ''BIN-X'') ([], [])
       = (Inl (Failed 500 ''Failed to create bin: '' TypeError), ([], []))"
  by (simp add: only_bin_number_def before_CREATE_def CREATE_def mapBinToS4_def)


end
